theory Spec2Isabelle
  imports Main
begin

section \<open>JavaScript values, errors and HTTP responses\<close>

text \<open>
  The coordinator lives in the \<open>App\<close> component of \<open>src/frontend/src/App.jsx\<close>
  (lines 275-359). The values it reads out of a JSON body are primitives. A number is a
  safe integer, below \<open>2^53\<close> in absolute value: a double holds it exactly, and
  \<open>ToString\<close> prints it in plain decimal (the exponent form starts at \<open>10^21\<close>).
  Property values that are themselves objects or arrays, and the other numbers, are
  outside this model.
\<close>

typedef safe_int = "{n :: int. \<bar>n\<bar> < 9007199254740992}"
  by (rule exI [of _ 0]) simp

datatype jsval = JUndefined | JNull | JBool bool | JNum safe_int | JStr string

text \<open>Truthiness, and the operator \<open>a || b\<close>.\<close>

fun truthy :: "jsval \<Rightarrow> bool" where
  "truthy JUndefined = False"
| "truthy JNull = False"
| "truthy (JBool b) = b"
| "truthy (JNum n) = (Rep_safe_int n \<noteq> 0)"
| "truthy (JStr s) = (s \<noteq> [])"

definition js_or :: "jsval \<Rightarrow> jsval \<Rightarrow> jsval" where
  "js_or a b = (if truthy a then a else b)"

text \<open>
  \<open>ToString\<close>, which \<open>new Error(x)\<close> applies to its argument and a template literal
  to each value it interpolates.
\<close>

function nat_digits :: "nat \<Rightarrow> string" where
  "nat_digits n =
     (if n < 10 then [''0123456789'' ! n]
      else nat_digits (n div 10) @ [''0123456789'' ! (n mod 10)])"
  by pat_completeness auto
termination
  by (relation "measure (\<lambda>n. n)") auto

declare nat_digits.simps [simp del]

fun to_string :: "jsval \<Rightarrow> string" where
  "to_string JUndefined = ''undefined''"
| "to_string JNull = ''null''"
| "to_string (JBool b) = (if b then ''true'' else ''false'')"
| "to_string (JNum n) =
     (if Rep_safe_int n < 0 then ''-'' @ nat_digits (nat (- Rep_safe_int n))
      else nat_digits (nat (Rep_safe_int n)))"
| "to_string (JStr s) = s"


text \<open>An exception value; the code reads only its \<open>message\<close>.\<close>

datatype js_error = JsError (message: string)

text \<open>
  Reading a property of \<open>null\<close> throws a TypeError. Its text is the engine's (V8's
  wording here); no statement below depends on it.
\<close>

definition type_error_null :: "string \<Rightarrow> js_error" where
  "type_error_null k =
     JsError (''Cannot read properties of null (reading '' @ [CHR 0x27] @ k @ [CHR 0x27] @ '')'')"

text \<open>
  What \<open>await response.json()\<close> yields: a rejection (the body is not JSON), or the
  parsed value: \<open>null\<close>, an object with its properties, or any other value (a number, a
  string, a boolean, an array), on which every property the code reads is \<open>undefined\<close>.
\<close>

datatype json_value = JsonNull | JsonObject "(string \<times> jsval) list" | JsonOther

definition lookup :: "(string \<times> jsval) list \<Rightarrow> string \<Rightarrow> jsval" where
  "lookup kvs k = (case map_of kvs k of None \<Rightarrow> JUndefined | Some x \<Rightarrow> x)"

definition property :: "json_value \<Rightarrow> string \<Rightarrow> js_error + jsval" where
  "property v k =
     (case v of
        JsonNull \<Rightarrow> Inl (type_error_null k)
      | JsonObject kvs \<Rightarrow> Inr (lookup kvs k)
      | JsonOther \<Rightarrow> Inr JUndefined)"

record response =
  ok :: bool
  json :: "js_error + json_value"

text \<open>How the promise of a \<open>fetch\<close> settles.\<close>

datatype fetch_result = FetchReject js_error | FetchResolve response

text \<open>
  The two requests the component sends: \<open>POST ${API_BASE}/launch-browser\<close> with body
  \<open>{browser: browserType}\<close>, and \<open>DELETE\<close> of the URL \<open>${API_BASE}/cleanup/${sessionId}\<close>.
  \<open>API_BASE\<close> is one constant of the build, so a \<open>DELETE\<close> carries the rest of its URL,
  which \<open>cleanup_url\<close> builds as the template literal does: two ids with the same text
  give the same URL.
\<close>

datatype request = POST_launch_browser string | DELETE string

definition cleanup_url :: "jsval \<Rightarrow> string" where
  "cleanup_url sessionId = ''/cleanup/'' @ to_string sessionId"

section \<open>The component's state\<close>

text \<open>The object literal \<open>newSession\<close> (lines 340-347); \<open>id'\<close> is its field \<open>id\<close>.\<close>

record session =
  id' :: jsval
  browser :: string
  url :: jsval
  status :: jsval
  port :: jsval
  createdAt :: nat

text \<open>
  A JavaScript \<open>Set\<close> of primitives: its elements in insertion order, without
  duplicates. \<open>add\<close> of a member changes nothing, \<open>delete\<close> of a non-member changes
  nothing, \<open>Array.from\<close> lists the elements in insertion order.
\<close>

definition set_add :: "'a \<Rightarrow> 'a list \<Rightarrow> 'a list" where
  "set_add x xs = (if x \<in> set xs then xs else xs @ [x])"

definition set_delete :: "'a \<Rightarrow> 'a list \<Rightarrow> 'a list" where
  "set_delete x xs = filter (\<lambda>y. y \<noteq> x) xs"

definition array_from :: "'a list \<Rightarrow> 'a list" where
  "array_from xs = xs"

text \<open>
  The four \<open>useState\<close> cells and the \<open>useRef\<close> cell (lines 276-280), with the two
  effects the code has on the outside: what it writes with \<open>console.error\<close> and the
  requests it has sent, in order. A functional update \<open>setSessions(prev => f prev)\<close> is
  applied to the cell at once: React applies queued updaters in order before the next
  render, so every render sees the value computed here.
\<close>

record app_state =
  sessions :: "session list"
  loading :: bool
  error :: string
  launchingBrowser :: "string option"
  sessionsRef :: "jsval list"
  console :: "(string \<times> js_error) list"
  network :: "request list"

definition init_state :: app_state where
  "init_state =
     \<lparr>sessions = [], loading = False, error = [], launchingBrowser = None,
      sessionsRef = [], console = [], network = []\<rparr>"

section \<open>cleanupSession (lines 283-293)\<close>

text \<open>
  The function runs to its \<open>await\<close> (\<open>cleanupSession_start\<close>: the request is sent) and
  continues when the promise of the fetch settles (\<open>cleanupSession_settle\<close>): past the
  \<open>await\<close> when it fulfils, in the \<open>catch\<close> when it rejects. \<open>remove\<close> is lines 288-289.
\<close>

definition remove :: "jsval \<Rightarrow> app_state \<Rightarrow> app_state" where
  "remove sessionId st =
     st\<lparr>sessions := filter (\<lambda>s. id' s \<noteq> sessionId) (sessions st),
        sessionsRef := set_delete sessionId (sessionsRef st)\<rparr>"

definition cleanupSession_start :: "jsval \<Rightarrow> app_state \<Rightarrow> app_state" where
  "cleanupSession_start sessionId st =
     st\<lparr>network := network st @ [DELETE (cleanup_url sessionId)]\<rparr>"

definition cleanupSession_settle :: "jsval \<Rightarrow> fetch_result \<Rightarrow> app_state \<Rightarrow> app_state" where
  "cleanupSession_settle sessionId r st =
     (case r of
        FetchResolve _ \<Rightarrow> remove sessionId st
      | FetchReject err \<Rightarrow> st\<lparr>console := console st @ [(''Cleanup error:'', err)]\<rparr>)"

section \<open>launchBrowser (lines 319-359)\<close>

text \<open>
  \<open>launchBrowser_start\<close> is the code before the first \<open>await\<close>. The function then awaits
  the fetch and the body; between the two it touches no state, so one continuation
  (\<open>launchBrowser_settle\<close>) takes the settled fetch, whose response carries what its
  \<open>json()\<close> yields. \<open>launchBrowser_try\<close> is the \<open>try\<close> block: \<open>Inl\<close> the exception it
  throws, \<open>Inr\<close> the state it leaves. \<open>insert_session\<close> is lines 349-350. \<open>now\<close> is the
  value of \<open>new Date()\<close>.
\<close>

definition insert_session :: "session \<Rightarrow> jsval \<Rightarrow> app_state \<Rightarrow> app_state" where
  "insert_session newSession session_id st =
     st\<lparr>sessions := sessions st @ [newSession],
        sessionsRef := set_add session_id (sessionsRef st)\<rparr>"

definition launchBrowser_start :: "string \<Rightarrow> app_state \<Rightarrow> app_state" where
  "launchBrowser_start browserType st =
     st\<lparr>loading := True, launchingBrowser := Some browserType, error := [],
        network := network st @ [POST_launch_browser browserType]\<rparr>"

definition launchBrowser_try :: "string \<Rightarrow> nat \<Rightarrow> fetch_result \<Rightarrow> app_state \<Rightarrow> js_error + app_state" where
  "launchBrowser_try browserType now r st =
     (case r of
        FetchReject err \<Rightarrow> Inl err
      | FetchResolve resp \<Rightarrow>
          if \<not> ok resp then
            (case json resp of
               Inl err \<Rightarrow> Inl err
             | Inr errorData \<Rightarrow>
                 (case property errorData ''detail'' of
                    Inl err \<Rightarrow> Inl err
                  | Inr detail \<Rightarrow>
                      Inl (JsError (to_string (js_or detail (JStr ''Failed to launch browser''))))))
          else
            (case json resp of
               Inl err \<Rightarrow> Inl err
             | Inr data \<Rightarrow>
                 (case property data ''session_id'' of
                    Inl err \<Rightarrow> Inl err
                  | Inr session_id \<Rightarrow>
                 (case property data ''vnc_url'' of
                    Inl err \<Rightarrow> Inl err
                  | Inr vnc_url \<Rightarrow>
                 (case property data ''status'' of
                    Inl err \<Rightarrow> Inl err
                  | Inr status_v \<Rightarrow>
                 (case property data ''port'' of
                    Inl err \<Rightarrow> Inl err
                  | Inr port_v \<Rightarrow>
                      Inr (insert_session
                             \<lparr>id' = session_id, browser = browserType, url = vnc_url,
                              status = status_v, port = port_v, createdAt = now\<rparr>
                             session_id st)))))))"

definition launchBrowser_settle :: "string \<Rightarrow> nat \<Rightarrow> fetch_result \<Rightarrow> app_state \<Rightarrow> app_state" where
  "launchBrowser_settle browserType now r st =
     (let st1 =
        (case launchBrowser_try browserType now r st of
           Inl err \<Rightarrow>
             st\<lparr>console := console st @ [(''Error launching browser:'', err)],
                error := message err\<rparr>
         | Inr st' \<Rightarrow> st')
      in st1\<lparr>loading := False, launchingBrowser := None\<rparr>)"

section \<open>handleBeforeUnload (lines 296-307)\<close>

text \<open>
  A promise is pending, fulfilled with a value or rejected with a reason, and settles
  once.
\<close>

datatype 'a promise = Pending | Fulfilled 'a | Rejected js_error

fun is_fulfilled :: "'a promise \<Rightarrow> bool" where
  "is_fulfilled (Fulfilled _) = True"
| "is_fulfilled _ = False"


fun to_promise :: "fetch_result \<Rightarrow> response promise" where
  "to_promise (FetchReject err) = Rejected err"
| "to_promise (FetchResolve resp) = Fulfilled resp"

definition fulfilled_values :: "'a promise list \<Rightarrow> 'a list" where
  "fulfilled_values ps = concat (map (\<lambda>p. case p of Fulfilled v \<Rightarrow> [v] | _ \<Rightarrow> []) ps)"

text \<open>
  One run of the handler: the promises of its fetches (\<open>cleanupPromises\<close>) and the promise
  \<open>Promise.all(cleanupPromises)\<close> it awaits. \<open>Promise.all\<close> fulfils when every input
  has fulfilled (at once for no input) and rejects with the reason of the first input
  that rejects, whatever the state of the others. In both cases the handler continues and
  returns, after \<open>console.error\<close> in the second: \<open>returned\<close> says that the promise of the
  \<open>async\<close> handler itself has resolved.
\<close>

record unload_task =
  cleanupPromises :: "response promise list"
  all_promise :: "response list promise"


text \<open>
  \<open>handleBeforeUnload_start\<close> is the handler up to its \<open>await\<close>: the \<open>map\<close> over
  \<open>Array.from(sessionsRef.current)\<close> sends every request.
  \<open>handleBeforeUnload_settle i r\<close> is the settlement of the \<open>i\<close>-th fetch with \<open>r\<close>.
\<close>

definition handleBeforeUnload_start :: "app_state \<Rightarrow> unload_task \<times> app_state" where
  "handleBeforeUnload_start st =
     (let ids = array_from (sessionsRef st);
          promises = map (\<lambda>sessionId. Pending) ids
      in (\<lparr>cleanupPromises = promises,
           all_promise = (if promises = [] then Fulfilled [] else Pending)\<rparr>,
          st\<lparr>network := network st @ map (\<lambda>sessionId. DELETE (cleanup_url sessionId)) ids\<rparr>))"

definition handleBeforeUnload_settle ::
    "nat \<Rightarrow> fetch_result \<Rightarrow> unload_task \<times> app_state \<Rightarrow> unload_task \<times> app_state" where
  "handleBeforeUnload_settle i r ts =
     (case ts of (t, st) \<Rightarrow>
        if i < length (cleanupPromises t) \<and> cleanupPromises t ! i = Pending then
          (let t1 = t\<lparr>cleanupPromises := (cleanupPromises t)[i := to_promise r]\<rparr> in
           if all_promise t \<noteq> Pending then (t1, st)
           else
             (case r of
                FetchReject err \<Rightarrow>
                  (t1\<lparr>all_promise := Rejected err\<rparr>,
                   st\<lparr>console := console st @ [(''Error during cleanup:'', err)]\<rparr>)
              | FetchResolve _ \<Rightarrow>
                  if list_all is_fulfilled (cleanupPromises t1)
                  then (t1\<lparr>all_promise := Fulfilled (fulfilled_values (cleanupPromises t1))\<rparr>, st)
                  else (t1, st)))
        else (t, st))"

fun unload_run :: "(nat \<times> fetch_result) list \<Rightarrow> unload_task \<times> app_state \<Rightarrow> unload_task \<times> app_state" where
  "unload_run [] ts = ts"
| "unload_run ((i, r) # rest) ts = unload_run rest (handleBeforeUnload_settle i r ts)"

section \<open>Executions of the component\<close>

text \<open>
  Everything that runs on the component's state: the synchronous part of each of the
  three functions, the continuation of each at a settled request, and the dismissal of
  the error message (\<open>setError('')\<close>, line 423). An execution is any sequence of these
  from \<open>init_state\<close>; the sequences with a continuation that no call started are included,
  so a statement about all of them covers every interleaving the event loop can produce.
\<close>

datatype event =
    Launch string
  | LaunchSettled string nat fetch_result
  | Close jsval
  | CloseSettled jsval fetch_result
  | PageExit
  | PageExitSettled unload_task nat fetch_result
  | DismissError

fun step :: "event \<Rightarrow> app_state \<Rightarrow> app_state" where
  "step (Launch browserType) st = launchBrowser_start browserType st"
| "step (LaunchSettled browserType now r) st = launchBrowser_settle browserType now r st"
| "step (Close sessionId) st = cleanupSession_start sessionId st"
| "step (CloseSettled sessionId r) st = cleanupSession_settle sessionId r st"
| "step PageExit st = snd (handleBeforeUnload_start st)"
| "step (PageExitSettled t i r) st = snd (handleBeforeUnload_settle i r (t, st))"
| "step DismissError st = st\<lparr>error := []\<rparr>"

fun run :: "event list \<Rightarrow> app_state \<Rightarrow> app_state" where
  "run [] st = st"
| "run (e # es) st = run es (step e st)"

text \<open>The steps that can change the list of sessions or the set of ids.\<close>

fun is_mutation :: "event \<Rightarrow> bool" where
  "is_mutation (CloseSettled sessionId (FetchResolve resp)) = True"
| "is_mutation (LaunchSettled browserType now (FetchResolve resp)) = ok resp"
| "is_mutation _ = False"

text \<open>Concrete data: the well-formed success response of the service, and the state after it.\<close>

definition resp_abc123 :: response where
  "resp_abc123 =
     \<lparr>ok = True,
      json = Inr (JsonObject
        [(''session_id'', JStr ''abc123''), (''vnc_url'', JStr ''http://host/vnc/abc123''),
         (''status'', JStr ''running''), (''port'', JNum (Abs_safe_int 5901))])\<rparr>"

definition st_abc123 :: app_state where
  "st_abc123 =
     launchBrowser_settle ''firefox'' 0 (FetchResolve resp_abc123)
       (launchBrowser_start ''firefox'' init_state)"

definition resp_for :: "string \<Rightarrow> response" where
  "resp_for sid =
     \<lparr>ok = True,
      json = Inr (JsonObject
        [(''session_id'', JStr sid), (''vnc_url'', JStr (''http://host/vnc/'' @ sid)),
         (''status'', JStr ''running'')])\<rparr>"

text \<open>The registry with the sessions \<open>a\<close>, \<open>b\<close> and \<open>c\<close>, launched in this order.\<close>

definition st_a_b_c :: app_state where
  "st_a_b_c =
     run [LaunchSettled ''firefox'' 1 (FetchResolve (resp_for ''a'')),
          LaunchSettled ''tor'' 2 (FetchResolve (resp_for ''b'')),
          LaunchSettled ''firefox'' 3 (FetchResolve (resp_for ''c''))] init_state"

text \<open>
  The registry after two success responses, the first with the string \<open>"1"\<close> as its
  \<open>session_id\<close>, the second with the number \<open>1\<close>.
\<close>

definition st_1_1 :: app_state where
  "st_1_1 =
     run [LaunchSettled ''firefox'' 1 (FetchResolve (resp_for ''1'')),
          LaunchSettled ''tor'' 2
            (FetchResolve \<lparr>ok = True, json = Inr (JsonObject [(''session_id'', JNum (Abs_safe_int 1))])\<rparr>)]
       init_state"

text \<open>The two representations agree: the ids of the list are the members of the set.\<close>

definition consistent :: "app_state \<Rightarrow> bool" where
  "consistent st = (set (sessionsRef st) = set (map id' (sessions st)))"


section \<open>Facts shared by the proofs\<close>

lemma st_abc123_eq:
  "st_abc123 =
     \<lparr>sessions =
        [\<lparr>id' = JStr ''abc123'', browser = ''firefox'', url = JStr ''http://host/vnc/abc123'',
          status = JStr ''running'', port = JNum (Abs_safe_int 5901), createdAt = 0\<rparr>],
      loading = False, error = [], launchingBrowser = None,
      sessionsRef = [JStr ''abc123''], console = [],
      network = [POST_launch_browser ''firefox'']\<rparr>"
  by (simp add: st_abc123_def resp_abc123_def launchBrowser_settle_def launchBrowser_start_def
      launchBrowser_try_def init_state_def property_def lookup_def insert_session_def set_add_def)

lemma set_set_add: "set (set_add x xs) = insert x (set xs)"
  by (auto simp: set_add_def)

lemma set_set_delete: "set (set_delete x xs) = set xs - {x}"
  by (auto simp: set_delete_def)



lemma set_delete_absent: "x \<notin> set xs \<Longrightarrow> set_delete x xs = xs"
  by (induction xs) (auto simp: set_delete_def)

lemma filter_id_absent: "x \<notin> set (map id' xs) \<Longrightarrow> filter (\<lambda>s. id' s \<noteq> x) xs = xs"
  by (induction xs) auto

lemma launch_try_cases:
  "launchBrowser_try bt now r st = Inr st' \<Longrightarrow>
     \<exists>s. st' = insert_session s (id' s) st"
proof -
  assume a: "launchBrowser_try bt now r st = Inr st'"
  have "\<And>x b u sv pv. \<exists>s. insert_session \<lparr>id' = x, browser = b, url = u, status = sv, port = pv,
      createdAt = now\<rparr> x st = insert_session s (id' s) st"
    by (metis session.select_convs(1))
  with a show ?thesis
    by (auto simp: launchBrowser_try_def split: fetch_result.splits sum.splits if_splits)
qed

lemma launch_settle_registry:
  "(sessions (launchBrowser_settle bt now r st) = sessions st \<and>
    sessionsRef (launchBrowser_settle bt now r st) = sessionsRef st) \<or>
   (\<exists>s. sessions (launchBrowser_settle bt now r st) = sessions st @ [s] \<and>
        sessionsRef (launchBrowser_settle bt now r st) = set_add (id' s) (sessionsRef st))"
proof (cases "launchBrowser_try bt now r st")
  case (Inl err)
  then show ?thesis by (simp add: launchBrowser_settle_def)
next
  case (Inr st')
  then obtain s where "st' = insert_session s (id' s) st"
    using launch_try_cases by blast
  with Inr show ?thesis
    by (auto simp: launchBrowser_settle_def insert_session_def)
qed

lemma unload_start_registry:
  "sessions (snd (handleBeforeUnload_start st)) = sessions st \<and>
   sessionsRef (snd (handleBeforeUnload_start st)) = sessionsRef st"
  by (simp add: handleBeforeUnload_start_def Let_def)

lemma unload_settle_registry:
  "sessions (snd (handleBeforeUnload_settle i r ts)) = sessions (snd ts) \<and>
   sessionsRef (snd (handleBeforeUnload_settle i r ts)) = sessionsRef (snd ts)"
  by (cases ts) (simp add: handleBeforeUnload_settle_def Let_def split: fetch_result.splits)

lemma unload_run_registry:
  "sessions (snd (unload_run ss ts)) = sessions (snd ts) \<and>
   sessionsRef (snd (unload_run ss ts)) = sessionsRef (snd ts)"
  by (induction ss ts rule: unload_run.induct) (simp_all add: unload_settle_registry)

lemma step_consistent: "consistent st \<Longrightarrow> consistent (step e st)"
proof (cases e)
  case (LaunchSettled bt now r)
  assume c: "consistent st"
  from launch_settle_registry [of bt now r st] c LaunchSettled show ?thesis
    by (auto simp: consistent_def set_set_add)
next
  case (CloseSettled sid r)
  assume "consistent st"
  with CloseSettled show ?thesis
    by (cases r) (auto simp: consistent_def cleanupSession_settle_def remove_def set_set_delete)
next
  case (PageExitSettled t i r)
  assume "consistent st"
  with PageExitSettled unload_settle_registry [of i r "(t, st)"] show ?thesis
    by (simp add: consistent_def)
qed (simp_all add: consistent_def launchBrowser_start_def cleanupSession_start_def
      unload_start_registry)

lemma run_consistent: "consistent st \<Longrightarrow> consistent (run es st)"
  by (induction es arbitrary: st) (simp_all add: step_consistent)














section \<open>Closing a session\<close>

text \<open>
  C1 (as amended). \<open>close(X)\<close> is not optimistic: the synchronous part of
  \<open>cleanupSession\<close> sends the delete request and leaves the list and the set as they
  were. When the request's promise fulfils (whatever the HTTP status) every session with
  id \<open>X\<close> leaves the list and \<open>X\<close> leaves the set; when it rejects, both are unchanged.
\<close>

theorem close_removes_when_request_fulfils:
  "sessions (cleanupSession_start X st) = sessions st \<and>
   sessionsRef (cleanupSession_start X st) = sessionsRef st \<and>
   network (cleanupSession_start X st) = network st @ [DELETE (cleanup_url X)] \<and>
   sessions (cleanupSession_settle X (FetchResolve resp) st') = filter (\<lambda>s. id' s \<noteq> X) (sessions st') \<and>
   sessionsRef (cleanupSession_settle X (FetchResolve resp) st') = set_delete X (sessionsRef st') \<and>
   X \<notin> set (map id' (sessions (cleanupSession_settle X (FetchResolve resp) st'))) \<and>
   X \<notin> set (sessionsRef (cleanupSession_settle X (FetchResolve resp) st')) \<and>
   sessions (cleanupSession_settle X (FetchReject err) st') = sessions st' \<and>
   sessionsRef (cleanupSession_settle X (FetchReject err) st') = sessionsRef st'"
  by (auto simp: cleanupSession_start_def cleanupSession_settle_def remove_def set_set_delete)

text \<open>
  The claim as written fails on a registry holding the session \<open>abc123\<close>: the session is
  still listed when \<open>close\<close> has returned to the event loop, and still listed after
  the request was rejected.
\<close>

theorem close_not_optimistic_counterexample:
  "JStr ''abc123'' \<in> set (map id' (sessions (cleanupSession_start (JStr ''abc123'') st_abc123))) \<and>
   JStr ''abc123'' \<in> set (map id' (sessions
      (cleanupSession_settle (JStr ''abc123'') (FetchReject (JsError ''Failed to fetch''))
         (cleanupSession_start (JStr ''abc123'') st_abc123))))"
  by (simp add: st_abc123_eq cleanupSession_start_def cleanupSession_settle_def)

section \<open>Launching a session\<close>

text \<open>
  C2 (as amended). A launch updates the list and the set together or not at all. Nothing
  is inserted when the fetch rejects, when the status is not a success, when the body is
  not JSON or is \<open>null\<close>. A success response with any other body is not validated:
  the session is appended with the id and the URL the body holds, \<open>undefined\<close> when the
  property is missing or the body is not an object, and that id is added to the set.
\<close>

theorem launch_inserts_without_validation:
  "sessions (launchBrowser_settle bt now (FetchResolve \<lparr>ok = True, json = Inr (JsonObject kvs)\<rparr>) st) =
     sessions st @
       [\<lparr>id' = lookup kvs ''session_id'', browser = bt, url = lookup kvs ''vnc_url'',
         status = lookup kvs ''status'', port = lookup kvs ''port'', createdAt = now\<rparr>] \<and>
   sessionsRef (launchBrowser_settle bt now (FetchResolve \<lparr>ok = True, json = Inr (JsonObject kvs)\<rparr>) st) =
     set_add (lookup kvs ''session_id'') (sessionsRef st) \<and>
   sessions (launchBrowser_settle bt now (FetchResolve \<lparr>ok = True, json = Inr JsonOther\<rparr>) st) =
     sessions st @
       [\<lparr>id' = JUndefined, browser = bt, url = JUndefined, status = JUndefined,
         port = JUndefined, createdAt = now\<rparr>] \<and>
   sessionsRef (launchBrowser_settle bt now (FetchResolve \<lparr>ok = True, json = Inr JsonOther\<rparr>) st) =
     set_add JUndefined (sessionsRef st) \<and>
   sessions (launchBrowser_settle bt now (FetchReject err) st) = sessions st \<and>
   sessionsRef (launchBrowser_settle bt now (FetchReject err) st) = sessionsRef st \<and>
   (\<not> ok resp \<or> json resp = Inl err' \<or> json resp = Inr JsonNull \<longrightarrow>
      sessions (launchBrowser_settle bt now (FetchResolve resp) st) = sessions st \<and>
      sessionsRef (launchBrowser_settle bt now (FetchResolve resp) st) = sessionsRef st)"
  by (auto simp: launchBrowser_settle_def launchBrowser_try_def property_def insert_session_def
      split: sum.splits)

theorem launch_inserts_without_validation_witness:
  "sessions (launchBrowser_settle ''tor'' 7 (FetchResolve \<lparr>ok = True, json = Inr JsonNull\<rparr>) st_abc123) =
     sessions st_abc123 \<and>
   sessionsRef (launchBrowser_settle ''tor'' 7 (FetchResolve \<lparr>ok = True, json = Inr JsonNull\<rparr>) st_abc123) =
     sessionsRef st_abc123 \<and>
   sessionsRef (launchBrowser_settle ''tor'' 7
      (FetchResolve \<lparr>ok = True, json = Inr (JsonObject [(''session_id'', JStr ''x1'')])\<rparr>) st_abc123) =
     [JStr ''abc123'', JStr ''x1'']"
  using launch_inserts_without_validation
    [of "''tor''" 7 "[(''session_id'', JStr ''x1'')]" st_abc123 "JsError ''Failed to fetch''"
        "\<lparr>ok = True, json = Inr JsonNull\<rparr>" "JsError ''Unexpected token''"]
  by (simp add: st_abc123_eq set_add_def lookup_def)

text \<open>
  The claim as written fails on a success response that has neither \<open>session_id\<close> nor
  \<open>vnc_url\<close>: a session without id and URL is listed, and \<open>undefined\<close> is in the set.
\<close>

theorem launch_malformed_counterexample:
  "sessions (launchBrowser_settle ''firefox'' 0
      (FetchResolve \<lparr>ok = True, json = Inr (JsonObject [(''status'', JStr ''running'')])\<rparr>)
      (launchBrowser_start ''firefox'' init_state)) =
     [\<lparr>id' = JUndefined, browser = ''firefox'', url = JUndefined, status = JStr ''running'',
       port = JUndefined, createdAt = 0\<rparr>] \<and>
   sessionsRef (launchBrowser_settle ''firefox'' 0
      (FetchResolve \<lparr>ok = True, json = Inr (JsonObject [(''status'', JStr ''running'')])\<rparr>)
      (launchBrowser_start ''firefox'' init_state)) = [JUndefined]"
  by (simp add: launchBrowser_settle_def launchBrowser_start_def launchBrowser_try_def
      init_state_def property_def lookup_def insert_session_def set_add_def)

section \<open>The two representations\<close>

text \<open>
  C3. After every sequence of steps of the component from its initial state, an id occurs
  in the ordered list of sessions if and only if it is a member of the set that the
  page-exit cleanup reads.
\<close>

theorem dual_representation_consistent:
  "X \<in> set (map id' (sessions (run es init_state))) \<longleftrightarrow> X \<in> set (sessionsRef (run es init_state))"
proof -
  have "consistent init_state" by (simp add: consistent_def init_state_def)
  then have "consistent (run es init_state)" by (rule run_consistent)
  then show ?thesis by (simp add: consistent_def)
qed

section \<open>Closing a session, continued\<close>

text \<open>
  C7. Removing an id twice leaves the same state as removing it once, in \<open>remove\<close> and in
  the continuation of \<open>cleanupSession\<close> that calls it: the second call changes nothing,
  so it neither logs nor surfaces an error. Removing an id that is in neither
  representation changes nothing.
\<close>

theorem remove_idempotent:
  "remove X (remove X st) = remove X st \<and>
   cleanupSession_settle X (FetchResolve r2) (cleanupSession_settle X (FetchResolve r1) st) =
     cleanupSession_settle X (FetchResolve r1) st \<and>
   (X \<notin> set (map id' (sessions st)) \<and> X \<notin> set (sessionsRef st) \<longrightarrow> remove X st = st)"
  by (auto simp: remove_def cleanupSession_settle_def set_delete_def filter_id_absent
      set_delete_absent [unfolded set_delete_def])

theorem remove_idempotent_witness:
  "remove (JStr ''zzz'') st_abc123 = st_abc123 \<and>
   remove (JStr ''abc123'') (remove (JStr ''abc123'') st_abc123) = remove (JStr ''abc123'') st_abc123 \<and>
   sessions (remove (JStr ''abc123'') st_abc123) = []"
  using remove_idempotent [of "JStr ''zzz''" st_abc123 resp_abc123 resp_abc123]
    remove_idempotent [of "JStr ''abc123''" st_abc123 resp_abc123 resp_abc123]
  by (simp add: st_abc123_eq remove_def)

text \<open>
  C8 (as amended). Whatever the outcome of the delete request, the error message shown to
  the user, the launching indicator and the list of requests sent are as before: nothing
  is surfaced and nothing is sent again. A request whose fetch is rejected is logged once
  with \<open>console.error\<close> and changes nothing else. A request that is answered, with a
  success status or not (\<open>cleanupSession\<close> does not read \<open>response.ok\<close>), is not logged,
  and the session is removed from the list and the set.
\<close>

theorem cleanup_failure_never_surfaced:
  "cleanupSession_settle X (FetchReject err) st =
     st\<lparr>console := console st @ [(''Cleanup error:'', err)]\<rparr> \<and>
   console (cleanupSession_settle X (FetchResolve resp) st) = console st \<and>
   sessions (cleanupSession_settle X (FetchResolve resp) st) =
     filter (\<lambda>s. id' s \<noteq> X) (sessions st) \<and>
   sessionsRef (cleanupSession_settle X (FetchResolve resp) st) = set_delete X (sessionsRef st) \<and>
   error (cleanupSession_settle X r st) = error st \<and>
   loading (cleanupSession_settle X r st) = loading st \<and>
   launchingBrowser (cleanupSession_settle X r st) = launchingBrowser st \<and>
   network (cleanupSession_settle X r st) = network st"
  by (simp add: cleanupSession_settle_def remove_def split: fetch_result.splits)

text \<open>
  The claim as written fails for a delete request that the service answers with a
  non-success status: nothing is logged, and the session is removed as after a success.
\<close>

theorem cleanup_http_failure_not_logged_counterexample:
  "console (cleanupSession_settle (JStr ''abc123'')
      (FetchResolve \<lparr>ok = False, json = Inr (JsonObject [(''detail'', JStr ''Session not found'')])\<rparr>)
      (cleanupSession_start (JStr ''abc123'') st_abc123)) = [] \<and>
   sessions (cleanupSession_settle (JStr ''abc123'')
      (FetchResolve \<lparr>ok = False, json = Inr (JsonObject [(''detail'', JStr ''Session not found'')])\<rparr>)
      (cleanupSession_start (JStr ''abc123'') st_abc123)) = []"
  by (simp add: st_abc123_eq cleanupSession_start_def cleanupSession_settle_def remove_def)



section \<open>Launching a session, continued\<close>

text \<open>
  C5 (as amended). There is no check for a duplicate id and no error for it: a success
  response whose id is already in the set makes the \<open>try\<close> block return normally, with
  the new session appended to the list, which then has two sessions of that id, and the
  set unchanged.
\<close>

theorem duplicate_id_is_appended:
  "lookup kvs ''session_id'' \<in> set (sessionsRef st) \<longrightarrow>
     launchBrowser_try bt now (FetchResolve \<lparr>ok = True, json = Inr (JsonObject kvs)\<rparr>) st =
       Inr (st\<lparr>sessions := sessions st @
              [\<lparr>id' = lookup kvs ''session_id'', browser = bt, url = lookup kvs ''vnc_url'',
                status = lookup kvs ''status'', port = lookup kvs ''port'', createdAt = now\<rparr>]\<rparr>)"
  by (simp add: launchBrowser_try_def property_def insert_session_def set_add_def)

theorem duplicate_id_is_appended_witness:
  "launchBrowser_try ''tor'' 9 (FetchResolve (resp_for ''abc123'')) st_abc123 =
     Inr (st_abc123\<lparr>sessions := sessions st_abc123 @
        [\<lparr>id' = JStr ''abc123'', browser = ''tor'', url = JStr ''http://host/vnc/abc123'',
          status = JStr ''running'', port = JUndefined, createdAt = 9\<rparr>]\<rparr>)"
  using duplicate_id_is_appended
    [of "[(''session_id'', JStr ''abc123''), (''vnc_url'', JStr ''http://host/vnc/abc123''),
          (''status'', JStr ''running'')]" st_abc123 "''tor''" 9]
  by (simp add: st_abc123_eq resp_for_def lookup_def)

text \<open>
  The claim as written fails on the registry holding \<open>abc123\<close> when a second launch
  answers with the same id: the list has two sessions \<open>abc123\<close>, and no error is shown
  or logged.
\<close>

theorem duplicate_insert_counterexample:
  "map id' (sessions (launchBrowser_settle ''tor'' 9 (FetchResolve (resp_for ''abc123'')) st_abc123)) =
     [JStr ''abc123'', JStr ''abc123''] \<and>
   map id' (sessions st_abc123) = [JStr ''abc123''] \<and>
   error (launchBrowser_settle ''tor'' 9 (FetchResolve (resp_for ''abc123'')) st_abc123) = [] \<and>
   console (launchBrowser_settle ''tor'' 9 (FetchResolve (resp_for ''abc123'')) st_abc123) = []"
  by (simp add: st_abc123_eq resp_for_def launchBrowser_settle_def launchBrowser_try_def
      property_def lookup_def insert_session_def set_add_def)

text \<open>
  C6 (as amended). When the launch request is answered with a non-success status and a
  JSON object, the list and the set are what they were before \<open>launch\<close>, the loading flag
  and the launching indicator are cleared, and the message shown is \<open>detail\<close> when that
  is a non-empty string, the generic message when \<open>detail\<close> is absent or the empty
  string.
\<close>

theorem launch_failure_surfaces_detail:
  "sessions (launchBrowser_settle bt now (FetchResolve \<lparr>ok = False, json = Inr (JsonObject kvs)\<rparr>)
      (launchBrowser_start bt st)) = sessions st \<and>
   sessionsRef (launchBrowser_settle bt now (FetchResolve \<lparr>ok = False, json = Inr (JsonObject kvs)\<rparr>)
      (launchBrowser_start bt st)) = sessionsRef st \<and>
   loading (launchBrowser_settle bt now (FetchResolve \<lparr>ok = False, json = Inr (JsonObject kvs)\<rparr>)
      (launchBrowser_start bt st)) = False \<and>
   launchingBrowser (launchBrowser_settle bt now (FetchResolve \<lparr>ok = False, json = Inr (JsonObject kvs)\<rparr>)
      (launchBrowser_start bt st)) = None \<and>
   (lookup kvs ''detail'' = JStr m \<and> m \<noteq> [] \<longrightarrow>
      error (launchBrowser_settle bt now (FetchResolve \<lparr>ok = False, json = Inr (JsonObject kvs)\<rparr>)
        (launchBrowser_start bt st)) = m) \<and>
   (map_of kvs ''detail'' = None \<or> lookup kvs ''detail'' = JStr [] \<longrightarrow>
      error (launchBrowser_settle bt now (FetchResolve \<lparr>ok = False, json = Inr (JsonObject kvs)\<rparr>)
        (launchBrowser_start bt st)) = ''Failed to launch browser'')"
  by (auto simp: launchBrowser_settle_def launchBrowser_try_def launchBrowser_start_def
      property_def js_or_def lookup_def)

theorem launch_failure_surfaces_detail_witness:
  "sessions (launchBrowser_settle ''tor'' 4
      (FetchResolve \<lparr>ok = False, json = Inr (JsonObject [(''detail'', JStr ''container quota exceeded'')])\<rparr>)
      (launchBrowser_start ''tor'' st_abc123)) = sessions st_abc123 \<and>
   error (launchBrowser_settle ''tor'' 4
      (FetchResolve \<lparr>ok = False, json = Inr (JsonObject [(''detail'', JStr ''container quota exceeded'')])\<rparr>)
      (launchBrowser_start ''tor'' st_abc123)) = ''container quota exceeded'' \<and>
   error (launchBrowser_settle ''tor'' 4
      (FetchResolve \<lparr>ok = False, json = Inr (JsonObject [])\<rparr>)
      (launchBrowser_start ''tor'' st_abc123)) = ''Failed to launch browser''"
  using launch_failure_surfaces_detail
    [of "''tor''" 4 "[(''detail'', JStr ''container quota exceeded'')]" st_abc123
        "''container quota exceeded''"]
    launch_failure_surfaces_detail [of "''tor''" 4 "[]" st_abc123 "''x''"]
  by (simp add: lookup_def)

text \<open>
  The claim as written fails for the body \<open>{detail: ""}\<close>: the message shown is the
  generic one, not the empty \<open>detail\<close>.
\<close>

theorem launch_failure_empty_detail_counterexample:
  "error (launchBrowser_settle ''tor'' 4
      (FetchResolve \<lparr>ok = False, json = Inr (JsonObject [(''detail'', JStr [])])\<rparr>)
      (launchBrowser_start ''tor'' init_state)) = ''Failed to launch browser'' \<and>
   error (launchBrowser_settle ''tor'' 4
      (FetchResolve \<lparr>ok = False, json = Inr (JsonObject [(''detail'', JStr [])])\<rparr>)
      (launchBrowser_start ''tor'' init_state)) \<noteq> []"
  by (simp add: launchBrowser_settle_def launchBrowser_try_def launchBrowser_start_def
      property_def js_or_def lookup_def init_state_def)

section \<open>The page-exit cleanup\<close>




text \<open>
  Two ids that differ only in their type are two members of the set and have the same
  text: for the string \<open>"1"\<close> and the number \<open>1\<close> the handler sends two requests,
  both to \<open>/cleanup/1\<close>.
\<close>

lemma page_exit_same_url_twice:
  "sessionsRef st_1_1 = [JStr ''1'', JNum (Abs_safe_int 1)] \<and>
   network (snd (handleBeforeUnload_start st_1_1)) = [DELETE ''/cleanup/1'', DELETE ''/cleanup/1'']"
  by (simp add: st_1_1_def resp_for_def launchBrowser_settle_def launchBrowser_try_def
      init_state_def property_def lookup_def insert_session_def set_add_def
      handleBeforeUnload_start_def array_from_def Let_def cleanup_url_def
      Abs_safe_int_inverse nat_digits.simps)

text \<open>
  C9. The page-exit cleanup, from its start through any settlements of its requests,
  leaves the list of sessions and the set of ids as they were. More generally, the only
  steps of the component that can change either are the continuation of a close whose
  request was fulfilled and the continuation of a launch that got a success response.
\<close>

theorem page_exit_leaves_registry:
  "sessions (snd (unload_run ss (handleBeforeUnload_start st))) = sessions st \<and>
   sessionsRef (snd (unload_run ss (handleBeforeUnload_start st))) = sessionsRef st \<and>
   (\<not> is_mutation e \<longrightarrow>
      sessions (step e st) = sessions st \<and> sessionsRef (step e st) = sessionsRef st)"
proof -
  have a: "sessions (snd (unload_run ss (handleBeforeUnload_start st))) = sessions st"
    and b: "sessionsRef (snd (unload_run ss (handleBeforeUnload_start st))) = sessionsRef st"
    by (simp_all add: unload_run_registry unload_start_registry)
  have c: "sessions (step e st) = sessions st \<and> sessionsRef (step e st) = sessionsRef st"
    if "\<not> is_mutation e"
  proof (cases e)
    case (LaunchSettled bt now r)
    with that show ?thesis
      by (cases r) (simp_all add: launchBrowser_settle_def launchBrowser_try_def split: sum.splits)
  next
    case (CloseSettled sid r)
    with that show ?thesis
      by (cases r) (simp_all add: cleanupSession_settle_def)
  next
    case (PageExitSettled t i r)
    with unload_settle_registry [of i r "(t, st)"] show ?thesis by simp
  qed (simp_all add: launchBrowser_start_def cleanupSession_start_def unload_start_registry)
  from a b c show ?thesis by blast
qed

theorem page_exit_leaves_registry_witness:
  "sessions (snd (unload_run [(1, FetchReject (JsError ''Failed to fetch'')), (0, FetchResolve (resp_for ''a''))]
      (handleBeforeUnload_start st_a_b_c))) = sessions st_a_b_c \<and>
   sessionsRef (snd (unload_run [(1, FetchReject (JsError ''Failed to fetch'')), (0, FetchResolve (resp_for ''a''))]
      (handleBeforeUnload_start st_a_b_c))) = sessionsRef st_a_b_c \<and>
   sessions (step PageExit st_a_b_c) = sessions st_a_b_c \<and>
   sessionsRef (step PageExit st_a_b_c) = sessionsRef st_a_b_c"
  using page_exit_leaves_registry
    [of "[(1, FetchReject (JsError ''Failed to fetch'')), (0, FetchResolve (resp_for ''a''))]"
        st_a_b_c PageExit]
  by simp

end
